theory Spec2Isabelle
  imports Complex_Main "HOL-Library.Word"
begin

section \<open>Values of the JavaScript program\<close>

text \<open>
  A JavaScript string is a sequence of UTF-16 code units; \<open>length\<close> counts code units.
  \<open>js\<close> embeds an ASCII literal of the source.
\<close>

type_synonym jsstring = "16 word list"

type_synonym buffer = "8 word list"

definition js :: "string \<Rightarrow> jsstring" where
  "js s = map (\<lambda>c. of_char c) s"

text \<open>Template literals render a number in decimal: \<^verbatim>\<open>`${attempts}`\<close>.\<close>

fun show_nat :: "nat \<Rightarrow> jsstring" where
  "show_nat n =
     (if n < 10 then [word_of_nat (48 + n)]
      else show_nat (n div 10) @ [word_of_nat (48 + n mod 10)])"

declare show_nat.simps [simp del]

text \<open>
  What is thrown and what a rejected promise carries: an \<^verbatim>\<open>Error\<close> object, of which the
  program reads \<^verbatim>\<open>message\<close> and \<^verbatim>\<open>stack\<close>. Such an object is truthy, which is what
  \<^verbatim>\<open>if (error) throw error\<close> tests.
\<close>

datatype error = Error (message: jsstring) (stack: jsstring)

section \<open>The collaborators\<close>

text \<open>
  The image library (sharp) receives a pipeline of operations; the program only chooses
  which operations are in the pipeline.
\<close>

datatype sharp_op =
    Grayscale
  | Normalize
  | Threshold int
  | Resize int
  | Sharpen
  | Modulate rat rat
  | Median nat

text \<open>
  The items of the host runtime: \<^verbatim>\<open>inputItem.binary?.data\<close> and
  \<^verbatim>\<open>inputItem.binary?.mimeType\<close>; \<open>None\<close> is \<^verbatim>\<open>undefined\<close>.
\<close>

record binary_item =
  bin_data :: "jsstring option"
  bin_mimeType :: "jsstring option"

record input_item =
  binary :: "binary_item option"

text \<open>
  The behaviour of everything outside the repository is a parameter of the model:
  \<^item> \<open>sharp_toBuffer img ops\<close>: the outcome of running the pipeline \<open>ops\<close> on \<open>img\<close>;
  \<^item> \<open>createWorker_outcome k lang\<close>: the outcome of \<^verbatim>\<open>createWorker(lang)\<close> called when
    \<open>k\<close> workers exist: \<open>None\<close> resolves with the new worker (number \<open>k\<close>), \<open>Some e\<close> rejects;
  \<^item> \<open>addJob_outcome k img\<close>: the outcome of the job submitted to the scheduler after \<open>k\<close>
    earlier submissions: the recognised \<^verbatim>\<open>data.text\<close>, or a rejection;
  \<^item> \<open>recognize_outcome k img\<close>: the outcome of \<^verbatim>\<open>worker.recognize\<close> on worker \<open>k\<close>;
  \<^item> \<open>terminate_outcome k\<close>: the outcome of \<^verbatim>\<open>terminate()\<close> on worker \<open>k\<close>;
  \<^item> \<open>input_first\<close>: the outcome of \<^verbatim>\<open>$input.first()\<close>; the error covers the call
    throwing and the property access on a missing item;
  \<^item> \<open>base64_decode\<close>: \<^verbatim>\<open>Buffer.from(s, 'base64')\<close> on a string;
  \<^item> \<open>toISOString k\<close>: what the \<open>k\<close>-th reading of the clock prints;
  \<^item> \<open>new_stack\<close>: the stack trace that \<^verbatim>\<open>new Error(...)\<close> records.
\<close>

record env =
  sharp_toBuffer :: "buffer \<Rightarrow> sharp_op list \<Rightarrow> error + buffer"
  createWorker_outcome :: "nat \<Rightarrow> jsstring \<Rightarrow> error option"
  addJob_outcome :: "nat \<Rightarrow> buffer \<Rightarrow> error + jsstring"
  recognize_outcome :: "nat \<Rightarrow> buffer \<Rightarrow> error + jsstring"
  terminate_outcome :: "nat \<Rightarrow> error option"
  input_first :: "error + input_item"
  base64_decode :: "jsstring \<Rightarrow> buffer"
  toISOString :: "nat \<Rightarrow> jsstring"
  new_stack :: jsstring

text \<open>The calls that the program makes to the image library and to the OCR engine.\<close>

datatype call =
    Sharp_toBuffer
  | CreateScheduler
  | CreateWorker jsstring
  | AddWorker nat
  | AddJob
  | SetTimeout nat
  | Recognize nat
  | Terminate nat

text \<open>
  What the program has done to its collaborators so far:
  \<^item> \<open>calls\<close>: the calls to the image library, the OCR engine and the timer, in the order in
    which they were made;
  \<^item> \<open>logged\<close>: the messages that the functions of the repository hand to a logger,
    oldest first (the progress lines that a worker reports through the callback it is
    given at creation are the library's doing and are left out);
  \<^item> \<open>console\<close>: the lines written with \<^verbatim>\<open>console.log\<close>, oldest first;
  \<^item> \<open>console_errors\<close>: what was written with \<^verbatim>\<open>console.error\<close>;
  \<^item> \<open>clock_reads\<close>: how often \<^verbatim>\<open>new Date()\<close> was evaluated;
  \<^item> \<open>sharp_runs\<close>: how many pipelines were run;
  \<^item> \<open>schedulers\<close>: how many schedulers were created;
  \<^item> \<open>created\<close>: how many workers were created (workers \<open>0 .. created - 1\<close>);
  \<^item> \<open>registered\<close>: the workers added to the scheduler;
  \<^item> \<open>jobs\<close>: how many jobs were submitted to the scheduler;
  \<^item> \<open>recognized\<close>: the workers \<^verbatim>\<open>recognize\<close> was called on;
  \<^item> \<open>delays\<close>: the timeouts waited for, in milliseconds;
  \<^item> \<open>terminated\<close>: the workers \<^verbatim>\<open>terminate()\<close> was called on, whatever the outcome.
\<close>

record world =
  calls :: "call list"
  logged :: "jsstring list"
  console :: "jsstring list"
  console_errors :: "(jsstring \<times> error) list"
  clock_reads :: nat
  sharp_runs :: nat
  schedulers :: nat
  created :: nat
  registered :: "nat list"
  jobs :: nat
  recognized :: "nat list"
  delays :: "nat list"
  terminated :: "nat list"

definition world0 :: world where
  "world0 = \<lparr>calls = [], logged = [], console = [], console_errors = [], clock_reads = 0, sharp_runs = 0,
     schedulers = 0, created = 0, registered = [], jobs = 0, recognized = [],
     delays = [], terminated = []\<rparr>"

text \<open>The workers that exist and on which \<^verbatim>\<open>terminate()\<close> was never called.\<close>

definition live_workers :: "world \<Rightarrow> nat list" where
  "live_workers w = filter (\<lambda>k. k \<notin> set (terminated w)) [0..<created w]"

text \<open>
  A logger receives a line; all it can do is write to the console and read the clock. It
  is a function on those two components, run on the world by \<open>invoke\<close>, and it returns.
  Every call to a collaborator settles: it resolves or it rejects.
\<close>

type_synonym logger = "jsstring \<Rightarrow> jsstring list \<times> nat \<Rightarrow> jsstring list \<times> nat"

definition invoke :: "logger \<Rightarrow> jsstring \<Rightarrow> world \<Rightarrow> world" where
  "invoke logger' m w =
     (case logger' m (console w, clock_reads w) of
        (lines, reads) \<Rightarrow>
          w\<lparr>logged := logged w @ [m], console := lines, clock_reads := reads\<rparr>)"

definition console_log :: logger where
  "console_log m = (\<lambda>(lines, reads). (lines @ [m], reads))"

definition console_error :: "jsstring \<Rightarrow> error \<Rightarrow> world \<Rightarrow> world" where
  "console_error m e w = w\<lparr>console_errors := console_errors w @ [(m, e)]\<rparr>"

definition createScheduler :: "world \<Rightarrow> world" where
  "createScheduler w = w\<lparr>calls := calls w @ [CreateScheduler], schedulers := schedulers w + 1\<rparr>"

definition createWorker :: "env \<Rightarrow> jsstring \<Rightarrow> world \<Rightarrow> (error + nat) \<times> world" where
  "createWorker env lang w =
     (case createWorker_outcome env (created w) lang of
        Some e \<Rightarrow> (Inl e, w\<lparr>calls := calls w @ [CreateWorker lang]\<rparr>)
      | None \<Rightarrow>
          (Inr (created w), w\<lparr>calls := calls w @ [CreateWorker lang], created := created w + 1\<rparr>))"

definition addWorker :: "nat \<Rightarrow> world \<Rightarrow> world" where
  "addWorker worker w =
     w\<lparr>calls := calls w @ [AddWorker worker], registered := registered w @ [worker]\<rparr>"

definition addJob :: "env \<Rightarrow> buffer \<Rightarrow> world \<Rightarrow> (error + jsstring) \<times> world" where
  "addJob env img w =
     (addJob_outcome env (jobs w) img, w\<lparr>calls := calls w @ [AddJob], jobs := jobs w + 1\<rparr>)"

definition recognize :: "env \<Rightarrow> nat \<Rightarrow> buffer \<Rightarrow> world \<Rightarrow> (error + jsstring) \<times> world" where
  "recognize env worker img w =
     (recognize_outcome env worker img,
      w\<lparr>calls := calls w @ [Recognize worker], recognized := recognized w @ [worker]\<rparr>)"

definition setTimeout :: "nat \<Rightarrow> world \<Rightarrow> world" where
  "setTimeout ms w = w\<lparr>calls := calls w @ [SetTimeout ms], delays := delays w @ [ms]\<rparr>"

definition terminate :: "env \<Rightarrow> nat \<Rightarrow> world \<Rightarrow> error option \<times> world" where
  "terminate env worker w =
     (terminate_outcome env worker,
      w\<lparr>calls := calls w @ [Terminate worker], terminated := terminated w @ [worker]\<rparr>)"

section \<open>Control flow\<close>

text \<open>
  \<^verbatim>\<open>try { body } finally { fin }\<close>: \<open>fin\<close> runs whatever \<open>body\<close> did; when \<open>fin\<close>
  throws, that replaces the outcome of \<open>body\<close>, otherwise the outcome of \<open>body\<close> stands.
\<close>

definition try_finally ::
  "(world \<Rightarrow> (error + 'a) \<times> world) \<Rightarrow> (world \<Rightarrow> (error + unit) \<times> world) \<Rightarrow>
   world \<Rightarrow> (error + 'a) \<times> world" where
  "try_finally body fin w =
     (case body w of
        (r, w1) \<Rightarrow>
          (case fin w1 of
             (Inl e, w2) \<Rightarrow> (Inl e, w2)
           | (Inr _, w2) \<Rightarrow> (r, w2)))"

text \<open>\<^verbatim>\<open>try { body } catch (error) { handler }\<close>.\<close>

definition try_catch ::
  "(world \<Rightarrow> (error + 'a) \<times> world) \<Rightarrow> (error \<Rightarrow> world \<Rightarrow> (error + 'a) \<times> world) \<Rightarrow>
   world \<Rightarrow> (error + 'a) \<times> world" where
  "try_catch body handler w =
     (case body w of
        (Inl e, w1) \<Rightarrow> handler e w1
      | (Inr v, w1) \<Rightarrow> (Inr v, w1))"

text \<open>
  \<^verbatim>\<open>await Promise.all(ps)\<close>: it resolves when no promise rejects and rejects with the
  error of a promise that rejects; of several rejections the model takes the first in the
  order of the array (in the program, the first in time).
\<close>

fun promise_all :: "error option list \<Rightarrow> error + unit" where
  "promise_all [] = Inr ()"
| "promise_all (None # ps) = promise_all ps"
| "promise_all (Some e # ps) = Inl e"

section \<open>\<^verbatim>\<open>preprocessImage\<close>\<close>

text \<open>
  The options object; a field that is \<open>None\<close> is absent and takes the default of the
  destructuring pattern.
\<close>

record preprocessing_options =
  grayscale :: "bool option"
  normalize :: "bool option"
  threshold :: "bool option"
  thresholdValue :: "int option"
  resize :: "bool option"
  width :: "int option"
  sharpen :: "bool option"
  removeNoise :: "bool option"
  contrast :: "rat option"
  brightness :: "rat option"

definition no_preprocessing_options :: preprocessing_options where
  "no_preprocessing_options =
     \<lparr>grayscale = None, normalize = None, threshold = None, thresholdValue = None,
      resize = None, width = None, sharpen = None, removeNoise = None,
      contrast = None, brightness = None\<rparr>"

definition or_default :: "'a option \<Rightarrow> 'a \<Rightarrow> 'a" where
  "or_default v d = (case v of None \<Rightarrow> d | Some x \<Rightarrow> x)"

definition pipeline :: "preprocessing_options \<Rightarrow> sharp_op list" where
  "pipeline options =
     (let grayscale' = or_default (grayscale options) True;
          normalize' = or_default (normalize options) True;
          threshold' = or_default (threshold options) False;
          thresholdValue' = or_default (thresholdValue options) 128;
          resize' = or_default (resize options) False;
          width' = or_default (width options) 1800;
          sharpen' = or_default (sharpen options) True;
          removeNoise' = or_default (removeNoise options) True;
          contrast' = or_default (contrast options) 1;
          brightness' = or_default (brightness options) 1
      in (if grayscale' then [Grayscale] else []) @
         (if normalize' then [Normalize] else []) @
         (if threshold' then [Threshold thresholdValue'] else []) @
         (if resize' then [Resize width'] else []) @
         (if sharpen' then [Sharpen] else []) @
         (if contrast' \<noteq> 1 \<or> brightness' \<noteq> 1 then [Modulate brightness' contrast'] else []) @
         (if removeNoise' then [Median 3] else []))"

definition preprocessImage ::
  "env \<Rightarrow> buffer \<Rightarrow> preprocessing_options \<Rightarrow> world \<Rightarrow> (error + buffer) \<times> world" where
  "preprocessImage env imageBuffer options w =
     (sharp_toBuffer env imageBuffer (pipeline options),
      w\<lparr>calls := calls w @ [Sharp_toBuffer], sharp_runs := sharp_runs w + 1\<rparr>)"

section \<open>\<^verbatim>\<open>performAdvancedOCR\<close>\<close>

record ocr_options =
  languages :: "jsstring list option"
  preprocessing :: "bool option"
  preprocessingOptions :: "preprocessing_options option"
  logger :: "logger option"
  retries :: "int option"

text \<open>
  The loop that initialises one worker per language. A rejected \<^verbatim>\<open>createWorker\<close>
  leaves the loop and the function at once: the loop is before the \<^verbatim>\<open>try\<close>.
\<close>

fun init_workers ::
  "env \<Rightarrow> logger \<Rightarrow> jsstring list \<Rightarrow> nat list \<Rightarrow> world \<Rightarrow> (error + nat list) \<times> world" where
  "init_workers env logger' [] workers w = (Inr workers, w)"
| "init_workers env logger' (lang # rest) workers w =
     (let w1 = invoke logger' (js ''Initializing worker for language: '' @ lang) w
      in case createWorker env lang w1 of
           (Inl e, w2) \<Rightarrow> (Inl e, w2)
         | (Inr worker, w2) \<Rightarrow>
             init_workers env logger' rest (workers @ [worker]) (addWorker worker w2))"

text \<open>
  The retry loop \<^verbatim>\<open>while (attempts < retries)\<close> with its variables \<open>attempts\<close>,
  \<open>error\<close> and \<open>text\<close>; the result is the value of \<open>error\<close> and \<open>text\<close> after the loop.
\<close>

function retry_loop ::
  "env \<Rightarrow> logger \<Rightarrow> int \<Rightarrow> buffer \<Rightarrow> nat \<Rightarrow> error option \<Rightarrow> jsstring \<Rightarrow> world \<Rightarrow>
   (error option \<times> jsstring) \<times> world" where
  "retry_loop env logger' retries' processedImage attempts err text w =
     (if int attempts < retries' then
        (case addJob env processedImage w of
           (Inr data_text, w1) \<Rightarrow> ((None, data_text), w1)
         | (Inl e, w1) \<Rightarrow>
             (let attempts' = attempts + 1;
                  w2 = invoke logger' (js ''OCR attempt '' @ show_nat attempts' @ js '' failed: '' @ message e) w1;
                  w3 = (if int attempts' < retries' then setTimeout 1000 w2 else w2)
              in retry_loop env logger' retries' processedImage attempts' (Some e) text w3))
      else ((err, text), w))"
  by pat_completeness auto
termination
  by (relation "measure (\<lambda>(env, logger', retries', processedImage, attempts, err, text, w).
        nat (retries' - int attempts))") auto

text \<open>The world after an attempt that failed with \<open>e\<close> when \<open>attempts\<close> had failed before.\<close>

definition after_failure :: "logger \<Rightarrow> int \<Rightarrow> nat \<Rightarrow> error \<Rightarrow> world \<Rightarrow> world" where
  "after_failure logger' retries' attempts e w =
     (let w2 = invoke logger'
                 (js ''OCR attempt '' @ show_nat (attempts + 1) @ js '' failed: '' @ message e)
                 (w\<lparr>calls := calls w @ [AddJob], jobs := jobs w + 1\<rparr>)
      in if int (attempts + 1) < retries' then setTimeout 1000 w2 else w2)"

text \<open>The body of the \<^verbatim>\<open>try\<close> block.\<close>

definition recognition ::
  "env \<Rightarrow> logger \<Rightarrow> int \<Rightarrow> buffer \<Rightarrow> world \<Rightarrow> (error + jsstring) \<times> world" where
  "recognition env logger' retries' processedImage w =
     (case retry_loop env logger' retries' processedImage 0 None [] (invoke logger' (js ''Starting OCR process...'') w) of
        ((Some e, text), w1) \<Rightarrow> (Inl e, w1)
      | ((None, text), w1) \<Rightarrow> (Inr text, invoke logger' (js ''OCR process completed successfully'') w1))"

text \<open>
  \<^verbatim>\<open>workers.map((worker) => worker.terminate())\<close> calls \<^verbatim>\<open>terminate\<close> on every worker
  of the array before anything is awaited.
\<close>

fun terminate_each :: "env \<Rightarrow> nat list \<Rightarrow> world \<Rightarrow> error option list \<times> world" where
  "terminate_each env [] w = ([], w)"
| "terminate_each env (worker # rest) w =
     (case terminate env worker w of
        (p, w1) \<Rightarrow> (case terminate_each env rest w1 of (ps, w2) \<Rightarrow> (p # ps, w2)))"

text \<open>The \<^verbatim>\<open>finally\<close> block.\<close>

definition cleanup :: "env \<Rightarrow> logger \<Rightarrow> nat list \<Rightarrow> world \<Rightarrow> (error + unit) \<times> world" where
  "cleanup env logger' workers w =
     (case terminate_each env workers (invoke logger' (js ''Terminating workers...'') w) of
        (ps, w1) \<Rightarrow>
          (case promise_all ps of
             Inl e \<Rightarrow> (Inl e, w1)
           | Inr _ \<Rightarrow> (Inr (), invoke logger' (js ''All workers terminated'') w1)))"

definition performAdvancedOCR ::
  "env \<Rightarrow> buffer \<Rightarrow> ocr_options \<Rightarrow> world \<Rightarrow> (error + jsstring) \<times> world" where
  "performAdvancedOCR env imageBuffer options w =
     (let languages' = or_default (languages options) [js ''eng''];
          preprocessing' = or_default (preprocessing options) True;
          preprocessingOptions' = or_default (preprocessingOptions options) no_preprocessing_options;
          logger' = or_default (logger options) console_log;
          retries' = or_default (retries options) 1
      in case (if preprocessing' then
                 (case preprocessImage env imageBuffer preprocessingOptions'
                         (invoke logger' (js ''Preprocessing image for better OCR results...'') w) of
                    (Inl e, w1) \<Rightarrow> (Inl e, w1)
                  | (Inr processed, w1) \<Rightarrow> (Inr processed, invoke logger' (js ''Preprocessing complete.'') w1))
               else (Inr imageBuffer, w)) of
           (Inl e, w2) \<Rightarrow> (Inl e, w2)
         | (Inr processedImage, w2) \<Rightarrow>
             (case init_workers env logger' languages' [] (createScheduler w2) of
                (Inl e, w3) \<Rightarrow> (Inl e, w3)
              | (Inr workers, w3) \<Rightarrow>
                  try_finally (recognition env logger' retries' processedImage)
                    (cleanup env logger' workers) w3))"

subsection \<open>The parts of a call\<close>

text \<open>The options after the defaults of the destructuring pattern.\<close>

definition the_languages :: "ocr_options \<Rightarrow> jsstring list" where
  "the_languages options = or_default (languages options) [js ''eng'']"

definition the_retries :: "ocr_options \<Rightarrow> int" where
  "the_retries options = or_default (retries options) 1"

definition the_logger :: "ocr_options \<Rightarrow> logger" where
  "the_logger options = or_default (logger options) console_log"

text \<open>
  What the preprocessing step hands on: the outcome of the pipeline when preprocessing is
  enabled, the image itself when it is not.
\<close>

definition preprocessed :: "env \<Rightarrow> buffer \<Rightarrow> ocr_options \<Rightarrow> error + buffer" where
  "preprocessed env imageBuffer options =
     (if or_default (preprocessing options) True then
        sharp_toBuffer env imageBuffer
          (pipeline (or_default (preprocessingOptions options) no_preprocessing_options))
      else Inr imageBuffer)"

text \<open>
  Every \<^verbatim>\<open>createWorker\<close> call of the initialisation loop resolves, when \<open>k\<close> workers
  exist before the loop.
\<close>

fun workers_start :: "env \<Rightarrow> nat \<Rightarrow> jsstring list \<Rightarrow> bool" where
  "workers_start env k [] = True"
| "workers_start env k (lang # rest) =
     (createWorker_outcome env k lang = None \<and> workers_start env (Suc k) rest)"

text \<open>The calls of the retry loop: the submissions of the job and the delays.\<close>

fun retrying :: "call \<Rightarrow> bool" where
  "retrying AddJob = True"
| "retrying (SetTimeout ms) = True"
| "retrying c = False"

definition retry_calls :: "world \<Rightarrow> call list" where
  "retry_calls w = filter retrying (calls w)"

text \<open>The workers that a call creates in a world \<open>w\<close> when every worker starts.\<close>

definition new_workers :: "world \<Rightarrow> ocr_options \<Rightarrow> nat list" where
  "new_workers w options = [created w..<created w + length (the_languages options)]"

section \<open>The single-worker variants\<close>

text \<open>\<^verbatim>\<open>performOCR\<close> of \<^verbatim>\<open>ocr-example.js\<close>; the worker is created before the \<^verbatim>\<open>try\<close>.\<close>

definition performOCR ::
  "env \<Rightarrow> buffer \<Rightarrow> jsstring option \<Rightarrow> world \<Rightarrow> (error + jsstring) \<times> world" where
  "performOCR env image' lang w =
     (case createWorker env (or_default lang (js ''eng''))
             (invoke console_log (js ''Initializing Tesseract worker...'') w) of
        (Inl e, w1) \<Rightarrow> (Inl e, w1)
      | (Inr worker, w1) \<Rightarrow>
          try_finally
            (try_catch
               (\<lambda>w2. case recognize env worker image' (invoke console_log (js ''Processing image...'') w2) of
                        (Inl e, w3) \<Rightarrow> (Inl e, w3)
                      | (Inr data_text, w3) \<Rightarrow>
                          (Inr data_text, invoke console_log (js ''OCR completed successfully'') w3))
               (\<lambda>e w2. (Inl e, console_error (js ''OCR Error:'') e w2)))
            (\<lambda>w2. case terminate env worker w2 of
                     (Some e, w3) \<Rightarrow> (Inl e, w3)
                   | (None, w3) \<Rightarrow> (Inr (), invoke console_log (js ''Tesseract worker terminated'') w3))
            w1)"

text \<open>\<^verbatim>\<open>extractTextFromImage\<close> of \<^verbatim>\<open>ocr-n8n-code-block.js\<close>.\<close>

definition extractTextFromImage ::
  "env \<Rightarrow> buffer \<Rightarrow> jsstring option \<Rightarrow> world \<Rightarrow> (error + jsstring) \<times> world" where
  "extractTextFromImage env imageBuffer language w =
     (case createWorker env (or_default language (js ''eng'')) w of
        (Inl e, w1) \<Rightarrow> (Inl e, w1)
      | (Inr worker, w1) \<Rightarrow>
          try_finally
            (recognize env worker imageBuffer)
            (\<lambda>w2. case terminate env worker w2 of
                     (Some e, w3) \<Rightarrow> (Inl e, w3)
                   | (None, w3) \<Rightarrow> (Inr (), w3))
            w1)"

section \<open>The functions exported to the host\<close>

text \<open>
  The object a node returns under \<^verbatim>\<open>json\<close>. A field that is \<open>None\<close> is not in the
  object (for \<open>json_mimeType\<close>: is \<^verbatim>\<open>undefined\<close>).
\<close>

record statistics =
  textLength :: nat
  lineCount :: nat
  wordCount :: nat
  timestamp :: jsstring

record node_json =
  json_success :: bool
  json_text :: "jsstring option"
  json_statistics :: "statistics option"
  json_languages :: "jsstring list option"
  json_mimeType :: "jsstring option"
  json_error :: "jsstring option"
  json_stack :: "jsstring option"
  json_timestamp :: "jsstring option"

definition empty_json :: node_json where
  "empty_json = \<lparr>json_success = False, json_text = None, json_statistics = None,
     json_languages = None, json_mimeType = None, json_error = None, json_stack = None,
     json_timestamp = None\<rparr>"

text \<open>\<^verbatim>\<open>$input.first().binary?.data\<close> and the test \<^verbatim>\<open>!binaryData\<close>: the empty string is falsy.\<close>

definition binary_data :: "input_item \<Rightarrow> jsstring option" where
  "binary_data inputItem = (case binary inputItem of None \<Rightarrow> None | Some b \<Rightarrow> bin_data b)"

definition binary_mimeType :: "input_item \<Rightarrow> jsstring option" where
  "binary_mimeType inputItem = (case binary inputItem of None \<Rightarrow> None | Some b \<Rightarrow> bin_mimeType b)"


subsection \<open>String operations of the advanced node\<close>

text \<open>\<^verbatim>\<open>s.includes(t)\<close>: \<open>t\<close> occurs in \<open>s\<close>; on \<^verbatim>\<open>undefined\<close>, \<^verbatim>\<open>?.\<close> gives a falsy value.\<close>

fun starts_with :: "'a list \<Rightarrow> 'a list \<Rightarrow> bool" where
  "starts_with s [] = True"
| "starts_with [] (c # t) = False"
| "starts_with (d # s) (c # t) = (d = c \<and> starts_with s t)"

fun js_includes :: "'a list \<Rightarrow> 'a list \<Rightarrow> bool" where
  "js_includes [] t = (t = [])"
| "js_includes (c # s) t = (starts_with (c # s) t \<or> js_includes s t)"

definition opt_includes :: "jsstring option \<Rightarrow> jsstring \<Rightarrow> bool" where
  "opt_includes s t = (case s of None \<Rightarrow> False | Some s' \<Rightarrow> js_includes s' t)"

text \<open>\<^verbatim>\<open>s.split('\n')\<close>: the pieces between the occurrences of a one-unit separator.\<close>

fun split_on :: "'a \<Rightarrow> 'a list \<Rightarrow> 'a list list" where
  "split_on sep [] = [[]]"
| "split_on sep (c # s) =
     (if c = sep then [] # split_on sep s
      else (case split_on sep s of
              piece # pieces \<Rightarrow> (c # piece) # pieces
            | [] \<Rightarrow> [[c]]))"

text \<open>
  \<^verbatim>\<open>s.split(/\s+/)\<close>: the pieces between the maximal runs of white space; a run at
  the start or at the end leaves an empty piece there.
\<close>

function split_runs :: "('a \<Rightarrow> bool) \<Rightarrow> 'a list \<Rightarrow> 'a list list" where
  "split_runs sp [] = [[]]"
| "split_runs sp (c # s) =
     (if sp c then [] # split_runs sp (dropWhile sp s)
      else (case split_runs sp s of
              piece # pieces \<Rightarrow> (c # piece) # pieces
            | [] \<Rightarrow> [[c]]))"
  by pat_completeness auto
termination
  by (relation "measure (\<lambda>(sp, s). length s)") (auto simp: length_dropWhile_le less_Suc_eq_le)

text \<open>The code units that \<^verbatim>\<open>\s\<close> matches (ECMAScript white space and line terminators).\<close>

definition is_space :: "16 word \<Rightarrow> bool" where
  "is_space c =
     (c \<in> {0x9, 0xA, 0xB, 0xC, 0xD, 0x20, 0xA0, 0x1680, 0x2028, 0x2029, 0x202F, 0x205F,
            0x3000, 0xFEFF} \<or> (0x2000 \<le> c \<and> c \<le> 0x200A))"

definition newline :: "16 word" where
  "newline = 0xA"

definition make_statistics :: "jsstring \<Rightarrow> jsstring \<Rightarrow> statistics" where
  "make_statistics extractedText now =
     \<lparr>textLength = length extractedText,
      lineCount = length (split_on newline extractedText),
      wordCount = length (filter (\<lambda>w. length w > 0) (split_runs is_space extractedText)),
      timestamp = now\<rparr>"

subsection \<open>The advanced node\<close>

text \<open>The logger of the node: \<^verbatim>\<open>console.log(`[${timestamp}] ${message}`)\<close>.\<close>

definition timestamp_logger :: "env \<Rightarrow> logger" where
  "timestamp_logger env m =
     (\<lambda>(lines, reads). (lines @ [js ''['' @ toISOString env reads @ js ''] '' @ m], reads + 1))"

definition new_Date_toISOString :: "env \<Rightarrow> world \<Rightarrow> jsstring \<times> world" where
  "new_Date_toISOString env w = (toISOString env (clock_reads w), w\<lparr>clock_reads := clock_reads w + 1\<rparr>)"

definition mime_preprocessingOptions :: "jsstring option \<Rightarrow> preprocessing_options" where
  "mime_preprocessingOptions mimeType =
     (if opt_includes mimeType (js ''image/jpeg'') \<or> opt_includes mimeType (js ''image/jpg'') then
        no_preprocessing_options\<lparr>grayscale := Some True, normalize := Some True,
          sharpen := Some True, contrast := Some (12 / 10)\<rparr>
      else if opt_includes mimeType (js ''image/png'') then
        no_preprocessing_options\<lparr>grayscale := Some True, sharpen := Some False,
          removeNoise := Some True\<rparr>
      else
        no_preprocessing_options\<lparr>grayscale := Some True, normalize := Some True\<rparr>)"

text \<open>The function exported by the advanced script.\<close>

definition advanced_node :: "env \<Rightarrow> world \<Rightarrow> (error + node_json) \<times> world" where
  "advanced_node env w =
     try_catch
       (\<lambda>w1. case input_first env of
                Inl e \<Rightarrow> (Inl e, w1)
              | Inr inputItem \<Rightarrow>
                  (let mimeType = binary_mimeType inputItem;
                       no_data = Error (js ''No binary data found in input. Connect a node that provides image data.'')
                                   (new_stack env)
                   in case binary_data inputItem of
                        None \<Rightarrow> (Inl no_data, w1)
                      | Some binaryData \<Rightarrow>
                          if binaryData = [] then (Inl no_data, w1)
                          else
                            (let buffer = base64_decode env binaryData;
                                 languages' = [js ''eng''];
                                 ocrOptions = \<lparr>languages = Some languages',
                                   preprocessing = Some True,
                                   preprocessingOptions = Some (mime_preprocessingOptions mimeType),
                                   logger = Some (timestamp_logger env),
                                   retries = Some 2\<rparr>
                             in case performAdvancedOCR env buffer ocrOptions
                                       (invoke (timestamp_logger env) (js ''Starting advanced OCR process...'') w1) of
                                  (Inl e, w2) \<Rightarrow> (Inl e, w2)
                                | (Inr extractedText, w2) \<Rightarrow>
                                    (case new_Date_toISOString env w2 of
                                       (now, w3) \<Rightarrow>
                                         (Inr (empty_json\<lparr>json_success := True,
                                                 json_text := Some extractedText,
                                                 json_statistics := Some (make_statistics extractedText now),
                                                 json_languages := Some languages',
                                                 json_mimeType := mimeType\<rparr>), w3)))))
       (\<lambda>e w1.
          (case new_Date_toISOString env
                  (invoke (timestamp_logger env) (js ''Error in OCR node: '' @ message e) w1) of
             (now, w2) \<Rightarrow>
               (Inr (empty_json\<lparr>json_success := False, json_error := Some (message e),
                       json_stack := Some (stack e), json_timestamp := Some now\<rparr>), w2)))
       w"

section \<open>The words of the specification\<close>


text \<open>
  The tokens of a text, as the specification words them: the maximal non-empty runs of
  code units that are not white space, in the order of the text.
\<close>

function tokens :: "('a \<Rightarrow> bool) \<Rightarrow> 'a list \<Rightarrow> 'a list list" where
  "tokens sp [] = []"
| "tokens sp (c # s) =
     (if sp c then tokens sp s
      else (c # takeWhile (\<lambda>d. \<not> sp d) s) # tokens sp (dropWhile (\<lambda>d. \<not> sp d) s))"
  by pat_completeness auto
termination
  by (relation "measure (\<lambda>(sp, s). length s)") (auto simp: length_dropWhile_le less_Suc_eq_le)

section \<open>Concrete collaborators\<close>

definition boom :: error where
  "boom = Error (js ''boom'') []"

definition timeout :: error where
  "timeout = Error (js ''timeout'') []"

definition png_item :: input_item where
  "png_item = \<lparr>binary = Some \<lparr>bin_data = Some (js ''aGk=''), bin_mimeType = Some (js ''image/png'')\<rparr>\<rparr>"

text \<open>Collaborators that never fail; every recognition reads \<^verbatim>\<open>HELLO\<close>.\<close>

definition env_ok :: env where
  "env_ok =
     \<lparr>sharp_toBuffer = (\<lambda>img ops. Inr img),
      createWorker_outcome = (\<lambda>k lang. None),
      addJob_outcome = (\<lambda>k img. Inr (js ''HELLO'')),
      recognize_outcome = (\<lambda>k img. Inr (js ''HELLO'')),
      terminate_outcome = (\<lambda>k. None),
      input_first = Inr png_item,
      base64_decode = (\<lambda>s. []),
      toISOString = (\<lambda>k. js ''2024-01-01T00:00:00.000Z''),
      new_stack = []\<rparr>"

text \<open>Every recognition job is rejected.\<close>

definition env_job_fails :: env where
  "env_job_fails = env_ok\<lparr>addJob_outcome := (\<lambda>k img. Inl timeout)\<rparr>"

text \<open>The first recognition job is rejected, the later ones succeed.\<close>

definition env_job_fails_once :: env where
  "env_job_fails_once =
     env_ok\<lparr>addJob_outcome := (\<lambda>k img. if k = 0 then Inl timeout else Inr (js ''HELLO''))\<rparr>"

text \<open>Every \<^verbatim>\<open>terminate()\<close> is rejected.\<close>

definition env_terminate_fails :: env where
  "env_terminate_fails = env_ok\<lparr>terminate_outcome := (\<lambda>k. Some boom)\<rparr>"

text \<open>Every job and every \<^verbatim>\<open>terminate()\<close> is rejected.\<close>

definition env_all_fails :: env where
  "env_all_fails = env_job_fails\<lparr>terminate_outcome := (\<lambda>k. Some boom)\<rparr>"

text \<open>Every \<^verbatim>\<open>recognize\<close> is rejected.\<close>

definition env_recognize_fails :: env where
  "env_recognize_fails = env_ok\<lparr>recognize_outcome := (\<lambda>k img. Inl timeout)\<rparr>"

text \<open>The second \<^verbatim>\<open>createWorker\<close> call is rejected.\<close>

definition env_second_worker_fails :: env where
  "env_second_worker_fails =
     env_ok\<lparr>createWorker_outcome := (\<lambda>k lang. if k = 1 then Some boom else None)\<rparr>"

text \<open>The image pipeline is rejected.\<close>

definition env_sharp_fails :: env where
  "env_sharp_fails = env_ok\<lparr>sharp_toBuffer := (\<lambda>img ops. Inl boom)\<rparr>"

definition default_options :: ocr_options where
  "default_options =
     \<lparr>languages = None, preprocessing = None, preprocessingOptions = None, logger = None,
      retries = None\<rparr>"

section \<open>Properties of the collaborators and of the loops\<close>

declare retry_loop.simps [simp del]

subsection \<open>What each call changes\<close>

lemma invoke_frame [simp]:
  "calls (invoke l m w) = calls w"
  "console_errors (invoke l m w) = console_errors w"
  "sharp_runs (invoke l m w) = sharp_runs w"
  "schedulers (invoke l m w) = schedulers w"
  "created (invoke l m w) = created w"
  "registered (invoke l m w) = registered w"
  "jobs (invoke l m w) = jobs w"
  "recognized (invoke l m w) = recognized w"
  "delays (invoke l m w) = delays w"
  "terminated (invoke l m w) = terminated w"
  "logged (invoke l m w) = logged w @ [m]"
  by (simp_all add: invoke_def split: prod.splits)

lemma invoke_derived [simp]:
  "live_workers (invoke l m w) = live_workers w"
  "retry_calls (invoke l m w) = retry_calls w"
  by (simp_all add: live_workers_def retry_calls_def)

lemma createScheduler_frame [simp]:
  "created (createScheduler w) = created w"
  "jobs (createScheduler w) = jobs w"
  "delays (createScheduler w) = delays w"
  "terminated (createScheduler w) = terminated w"
  "sharp_runs (createScheduler w) = sharp_runs w"
  "retry_calls (createScheduler w) = retry_calls w"
  by (simp_all add: createScheduler_def retry_calls_def)

lemma preprocessImage_frame [simp]:
  "fst (preprocessImage env img options w) = sharp_toBuffer env img (pipeline options)"
  "calls (snd (preprocessImage env img options w)) = calls w @ [Sharp_toBuffer]"
  "sharp_runs (snd (preprocessImage env img options w)) = sharp_runs w + 1"
  "schedulers (snd (preprocessImage env img options w)) = schedulers w"
  "created (snd (preprocessImage env img options w)) = created w"
  "jobs (snd (preprocessImage env img options w)) = jobs w"
  "delays (snd (preprocessImage env img options w)) = delays w"
  "terminated (snd (preprocessImage env img options w)) = terminated w"
  "retry_calls (snd (preprocessImage env img options w)) = retry_calls w"
  by (simp_all add: preprocessImage_def retry_calls_def)

lemma addJob_frame [simp]:
  "fst (addJob env img w) = addJob_outcome env (jobs w) img"
  "jobs (snd (addJob env img w)) = jobs w + 1"
  "delays (snd (addJob env img w)) = delays w"
  "created (snd (addJob env img w)) = created w"
  "terminated (snd (addJob env img w)) = terminated w"
  "sharp_runs (snd (addJob env img w)) = sharp_runs w"
  "schedulers (snd (addJob env img w)) = schedulers w"
  "retry_calls (snd (addJob env img w)) = retry_calls w @ [AddJob]"
  by (simp_all add: addJob_def retry_calls_def)

lemma terminate_each_eq:
  "terminate_each env ws w =
     (map (terminate_outcome env) ws,
      w\<lparr>calls := calls w @ map Terminate ws, terminated := terminated w @ ws\<rparr>)"
  by (induction ws arbitrary: w) (simp_all add: terminate_def)

lemma no_retrying_terminate: "filter retrying (map Terminate ws) = []"
  by (induction ws) simp_all

lemma terminate_each_frame [simp]:
  "fst (terminate_each env ws w) = map (terminate_outcome env) ws"
  "terminated (snd (terminate_each env ws w)) = terminated w @ ws"
  "created (snd (terminate_each env ws w)) = created w"
  "jobs (snd (terminate_each env ws w)) = jobs w"
  "delays (snd (terminate_each env ws w)) = delays w"
  "sharp_runs (snd (terminate_each env ws w)) = sharp_runs w"
  "logged (snd (terminate_each env ws w)) = logged w"
  "retry_calls (snd (terminate_each env ws w)) = retry_calls w"
  by (simp_all add: terminate_each_eq retry_calls_def no_retrying_terminate)

subsection \<open>The initialisation loop\<close>

lemma init_workers_frame:
  "jobs (snd (init_workers env l langs ws w)) = jobs w \<and>
   delays (snd (init_workers env l langs ws w)) = delays w \<and>
   terminated (snd (init_workers env l langs ws w)) = terminated w \<and>
   sharp_runs (snd (init_workers env l langs ws w)) = sharp_runs w \<and>
   retry_calls (snd (init_workers env l langs ws w)) = retry_calls w"
  by (induction langs arbitrary: ws w)
     (auto simp: createWorker_def addWorker_def Let_def retry_calls_def split: option.splits)

lemma upt_add_Suc: "[k..<k + Suc n] = k # [Suc k..<Suc k + n]"
  by (simp add: upt_conv_Cons del: upt_Suc)

lemma init_workers_ok:
  "workers_start env (created w) langs \<Longrightarrow>
   fst (init_workers env l langs ws w) = Inr (ws @ [created w..<created w + length langs]) \<and>
   created (snd (init_workers env l langs ws w)) = created w + length langs"
proof (induction langs arbitrary: ws w)
  case Nil
  then show ?case by simp
next
  case (Cons lang rest)
  let ?w1 = "invoke l (js ''Initializing worker for language: '' @ lang) w"
  let ?w2 = "addWorker (created w) (snd (createWorker env lang ?w1))"
  from Cons.prems have none: "createWorker_outcome env (created w) lang = None" by simp
  then have made: "fst (createWorker env lang ?w1) = Inr (created w)"
    and cr: "created ?w2 = Suc (created w)"
    by (simp_all add: createWorker_def addWorker_def)
  from Cons.prems have rest: "workers_start env (created ?w2) rest"
    unfolding cr by simp
  have step: "init_workers env l (lang # rest) ws w = init_workers env l rest (ws @ [created w]) ?w2"
    using made by (auto simp: Let_def split: prod.splits sum.splits)
  have len: "length (lang # rest) = Suc (length rest)" by simp
  show ?case
    using Cons.IH [OF rest, of "ws @ [created w]"] unfolding step cr len upt_add_Suc
    by simp
qed

subsection \<open>The retry loop\<close>

lemma retry_loop_done:
  "\<not> int a < r \<Longrightarrow> retry_loop env l r img a err t w = ((err, t), w)"
  by (subst retry_loop.simps) simp

lemma retry_loop_success:
  "int a < r \<Longrightarrow> addJob_outcome env (jobs w) img = Inr tx \<Longrightarrow>
   retry_loop env l r img a err t w = ((None, tx), snd (addJob env img w))"
  by (subst retry_loop.simps) (simp add: addJob_def)

lemma retry_loop_failure:
  "int a < r \<Longrightarrow> addJob_outcome env (jobs w) img = Inl e \<Longrightarrow>
   retry_loop env l r img a err t w =
     retry_loop env l r img (a + 1) (Some e) t (after_failure l r a e w)"
  by (subst retry_loop.simps) (simp add: addJob_def after_failure_def Let_def)

lemma after_failure_frame [simp]:
  "created (after_failure l r a e w) = created w"
  "terminated (after_failure l r a e w) = terminated w"
  "sharp_runs (after_failure l r a e w) = sharp_runs w"
  "schedulers (after_failure l r a e w) = schedulers w"
  "jobs (after_failure l r a e w) = jobs w + 1"
  "delays (after_failure l r a e w) = delays w @ (if int (a + 1) < r then [1000] else [])"
  "retry_calls (after_failure l r a e w) =
     retry_calls w @ AddJob # (if int (a + 1) < r then [SetTimeout 1000] else [])"
  by (simp_all add: after_failure_def Let_def setTimeout_def retry_calls_def)

lemma retry_loop_frame:
  "created (snd (retry_loop env l r img a err t w)) = created w \<and>
   terminated (snd (retry_loop env l r img a err t w)) = terminated w \<and>
   sharp_runs (snd (retry_loop env l r img a err t w)) = sharp_runs w \<and>
   schedulers (snd (retry_loop env l r img a err t w)) = schedulers w"
proof (induction "nat (r - int a)" arbitrary: a err w)
  case 0
  then have "\<not> int a < r" by simp
  then show ?case by (simp add: retry_loop_done)
next
  case (Suc n)
  then have lt: "int a < r" and n: "n = nat (r - int (a + 1))" by simp_all
  show ?case
  proof (cases "addJob_outcome env (jobs w) img")
    case (Inr tx)
    then show ?thesis using lt by (simp add: retry_loop_success)
  next
    case (Inl e)
    show ?thesis
      using Suc.hyps(1) [OF n, of "Some e" "after_failure l r a e w"]
      by (simp add: retry_loop_failure [OF lt Inl])
  qed
qed

text \<open>Every submission fails.\<close>

lemma retry_loop_all_fail:
  assumes fails: "\<And>k. isl (addJob_outcome env k img)"
  shows "int a \<le> r \<Longrightarrow>
    jobs (snd (retry_loop env l r img a err t w)) = jobs w + nat (r - int a) \<and>
    delays (snd (retry_loop env l r img a err t w)) = delays w @ replicate (nat (r - int a) - 1) 1000 \<and>
    retry_calls (snd (retry_loop env l r img a err t w)) =
      retry_calls w @
        (if int a < r
         then concat (replicate (nat (r - int a) - 1) [AddJob, SetTimeout 1000]) @ [AddJob]
         else []) \<and>
    snd (fst (retry_loop env l r img a err t w)) = t \<and>
    fst (fst (retry_loop env l r img a err t w)) =
      (if int a < r then Some (projl (addJob_outcome env (jobs w + nat (r - int a) - 1) img)) else err)"
proof (induction "nat (r - int a)" arbitrary: a err w)
  case 0
  then have "\<not> int a < r" by simp
  then show ?case using 0 by (simp add: retry_loop_done)
next
  case (Suc n)
  then have lt: "int a < r" and n: "n = nat (r - int (a + 1))" and le: "int (a + 1) \<le> r"
    by simp_all
  from fails [of "jobs w"] obtain e where e: "addJob_outcome env (jobs w) img = Inl e"
    by (cases "addJob_outcome env (jobs w) img") simp_all
  have rn: "nat (r - int a) = Suc n" using Suc.hyps(2) by simp
  have rn': "nat (r - int (a + 1)) = n" using n by simp
  note IH = Suc.hyps(1) [OF n le, of "Some e" "after_failure l r a e w", unfolded rn']
  show ?case
  proof (cases n)
    case 0
    then have "\<not> int (a + 1) < r" using n by simp
    then show ?thesis using IH lt 0 e unfolding retry_loop_failure [OF lt e] rn
      by simp
  next
    case (Suc m)
    then have "int (a + 1) < r" using n by simp
    then show ?thesis using IH lt Suc unfolding retry_loop_failure [OF lt e] rn
      by (simp add: replicate_app_Cons_same)
  qed
qed

subsection \<open>The try block and the finally block\<close>

lemma promise_all_ok: "(\<forall>p\<in>set ps. p = None) \<Longrightarrow> promise_all ps = Inr ()"
  by (induction ps rule: promise_all.induct) simp_all

lemma promise_all_fail:
  "\<exists>p\<in>set ps. p \<noteq> None \<Longrightarrow> \<exists>e. Some e \<in> set ps \<and> promise_all ps = Inl e"
  by (induction ps rule: promise_all.induct) auto

lemma cleanup_unfold:
  "cleanup env l ws w =
     (case promise_all (map (terminate_outcome env) ws) of
        Inl e \<Rightarrow> (Inl e, snd (terminate_each env ws (invoke l (js ''Terminating workers...'') w)))
      | Inr u \<Rightarrow>
          (Inr (), invoke l (js ''All workers terminated'')
                     (snd (terminate_each env ws (invoke l (js ''Terminating workers...'') w)))))"
  by (simp add: cleanup_def terminate_each_eq cong: sum.case_cong)

lemma cleanup_ok:
  "\<forall>k\<in>set ws. terminate_outcome env k = None \<Longrightarrow>
   cleanup env l ws w =
     (Inr (), invoke l (js ''All workers terminated'')
                (snd (terminate_each env ws (invoke l (js ''Terminating workers...'') w))))"
  by (simp add: cleanup_unfold promise_all_ok)

lemma cleanup_fail:
  assumes "\<exists>k\<in>set ws. terminate_outcome env k \<noteq> None"
  shows "\<exists>k\<in>set ws. \<exists>e. terminate_outcome env k = Some e \<and>
     cleanup env l ws w =
       (Inl e, snd (terminate_each env ws (invoke l (js ''Terminating workers...'') w)))"
proof -
  from assms have "\<exists>p\<in>set (map (terminate_outcome env) ws). p \<noteq> None" by auto
  from promise_all_fail [OF this] obtain e where
    e: "Some e \<in> set (map (terminate_outcome env) ws)"
    and p: "promise_all (map (terminate_outcome env) ws) = Inl e" by blast
  from e obtain k where "k \<in> set ws" "terminate_outcome env k = Some e" by auto
  moreover have "cleanup env l ws w =
      (Inl e, snd (terminate_each env ws (invoke l (js ''Terminating workers...'') w)))"
    by (simp add: cleanup_unfold p)
  ultimately show ?thesis by blast
qed

lemma cleanup_frame:
  "terminated (snd (cleanup env l ws w)) = terminated w @ ws \<and>
   created (snd (cleanup env l ws w)) = created w \<and>
   jobs (snd (cleanup env l ws w)) = jobs w \<and>
   delays (snd (cleanup env l ws w)) = delays w \<and>
   sharp_runs (snd (cleanup env l ws w)) = sharp_runs w \<and>
   retry_calls (snd (cleanup env l ws w)) = retry_calls w"
  by (cases "promise_all (map (terminate_outcome env) ws)") (simp_all add: cleanup_unfold)

lemma recognition_frame:
  "created (snd (recognition env l r img w)) = created w \<and>
   terminated (snd (recognition env l r img w)) = terminated w \<and>
   sharp_runs (snd (recognition env l r img w)) = sharp_runs w"
proof -
  obtain err t w1 where rl:
    "retry_loop env l r img 0 None [] (invoke l (js ''Starting OCR process...'') w) = ((err, t), w1)"
    by (metis prod.exhaust)
  from retry_loop_frame [of env l r img 0 None "[]" "invoke l (js ''Starting OCR process...'') w"]
  show ?thesis unfolding recognition_def rl by (cases err) simp_all
qed

lemma try_finally_snd: "snd (try_finally body fin w) = snd (fin (snd (body w)))"
  by (simp add: try_finally_def split: prod.splits sum.splits)

lemma try_finally_fst:
  "fst (try_finally body fin w) =
     (case fst (fin (snd (body w))) of Inl e \<Rightarrow> Inl e | Inr u \<Rightarrow> fst (body w))"
  by (simp add: try_finally_def split: prod.splits sum.splits)

lemma recognition_all_fail:
  assumes fails: "\<And>k. isl (addJob_outcome env k img)" and r: "0 \<le> r"
  shows "jobs (snd (recognition env l r img w)) = jobs w + nat r"
    and "delays (snd (recognition env l r img w)) = delays w @ replicate (nat r - 1) 1000"
    and "0 < r \<Longrightarrow>
         fst (recognition env l r img w) = Inl (projl (addJob_outcome env (jobs w + nat r - 1) img))"
    and "0 < r \<Longrightarrow>
         retry_calls (snd (recognition env l r img w)) =
           retry_calls w @ concat (replicate (nat r - 1) [AddJob, SetTimeout 1000]) @ [AddJob]"
proof -
  let ?w0 = "invoke l (js ''Starting OCR process...'') w"
  obtain err t w1 where rl: "retry_loop env l r img 0 None [] ?w0 = ((err, t), w1)"
    by (metis prod.exhaust)
  from retry_loop_all_fail [of env img 0 r l None "[]" ?w0, OF fails] r
  have j: "jobs w1 = jobs w + nat r" and d: "delays w1 = delays w @ replicate (nat r - 1) 1000"
    and e: "err = (if 0 < r then Some (projl (addJob_outcome env (jobs w + nat r - 1) img)) else None)"
    and c: "retry_calls w1 = retry_calls w @
        (if 0 < r then concat (replicate (nat r - 1) [AddJob, SetTimeout 1000]) @ [AddJob] else [])"
    unfolding rl by simp_all
  show "jobs (snd (recognition env l r img w)) = jobs w + nat r"
    unfolding recognition_def rl using j by (cases err) simp_all
  show "delays (snd (recognition env l r img w)) = delays w @ replicate (nat r - 1) 1000"
    unfolding recognition_def rl using d by (cases err) simp_all
  show "fst (recognition env l r img w) = Inl (projl (addJob_outcome env (jobs w + nat r - 1) img))"
    if "0 < r"
    unfolding recognition_def rl using e that by simp
  show "retry_calls (snd (recognition env l r img w)) =
      retry_calls w @ concat (replicate (nat r - 1) [AddJob, SetTimeout 1000]) @ [AddJob]"
    if "0 < r"
    unfolding recognition_def rl using c that by (cases err) simp_all
qed

lemma recognition_first_success:
  assumes "0 < r" and "addJob_outcome env (jobs w) img = Inr t"
  shows "recognition env l r img w =
           (Inr t, invoke l (js ''OCR process completed successfully'')
                     (snd (addJob env img (invoke l (js ''Starting OCR process...'') w))))"
  using assms by (simp add: recognition_def retry_loop_success)


subsection \<open>The paths of a call\<close>

text \<open>Once the image is preprocessed and every worker starts, the call enters the try block.\<close>

lemma performAdvancedOCR_ready:
  assumes pre: "preprocessed env img options = Inr pimg"
    and start: "workers_start env (created w) (the_languages options)"
  shows "\<exists>w3. performAdvancedOCR env img options w =
           try_finally (recognition env (the_logger options) (the_retries options) pimg)
             (cleanup env (the_logger options) (new_workers w options)) w3 \<and>
         created w3 = created w + length (the_languages options) \<and>
         jobs w3 = jobs w \<and> delays w3 = delays w \<and> terminated w3 = terminated w \<and>
         retry_calls w3 = retry_calls w"
proof -
  let ?l = "the_logger options"
  let ?ppo = "or_default (preprocessingOptions options) no_preprocessing_options"
  define w2 where "w2 =
    (if or_default (preprocessing options) True then
       invoke ?l (js ''Preprocessing complete.'')
         (snd (preprocessImage env img ?ppo
                 (invoke ?l (js ''Preprocessing image for better OCR results...'') w)))
     else w)"
  let ?ws = "createScheduler w2"
  let ?init = "init_workers env ?l (the_languages options) [] ?ws"
  have cr: "created w2 = created w" "jobs w2 = jobs w" "delays w2 = delays w"
    "terminated w2 = terminated w" "retry_calls w2 = retry_calls w"
    by (simp_all add: w2_def)
  from start have start': "workers_start env (created ?ws) (the_languages options)"
    by (simp add: cr)
  from init_workers_ok [OF start', of ?l "[]"]
  have ok: "fst ?init = Inr (new_workers w options)"
    and cr3: "created (snd ?init) = created w + length (the_languages options)"
    by (simp_all add: new_workers_def cr)
  from init_workers_frame [of env ?l "the_languages options" "[]" ?ws]
  have fr: "jobs (snd ?init) = jobs w" "delays (snd ?init) = delays w"
    "terminated (snd ?init) = terminated w" "retry_calls (snd ?init) = retry_calls w"
    by (simp_all add: cr)
  have "performAdvancedOCR env img options w =
          try_finally (recognition env ?l (the_retries options) pimg)
            (cleanup env ?l (new_workers w options)) (snd ?init)"
    using pre ok
    unfolding performAdvancedOCR_def preprocessed_def Let_def preprocessImage_def
      the_languages_def the_retries_def the_logger_def w2_def snd_conv
    by (cases ?init) (auto split: if_splits prod.splits sum.splits)
  then show ?thesis using cr3 fr by blast
qed


text \<open>A call that enters the try block leaves no worker of its own behind.\<close>

lemma performAdvancedOCR_releases:
  assumes pre: "preprocessed env imageBuffer options = Inr processedImage"
    and start: "workers_start env (created w) (the_languages options)"
  shows "live_workers (snd (performAdvancedOCR env imageBuffer options w)) = live_workers w"
proof -
  let ?R = "performAdvancedOCR env imageBuffer options w"
  let ?n = "length (the_languages options)"
  from performAdvancedOCR_ready [OF pre start] obtain w3 where
    R: "?R = try_finally (recognition env (the_logger options) (the_retries options) processedImage)
          (cleanup env (the_logger options) (new_workers w options)) w3"
    and fr: "created w3 = created w + ?n" "terminated w3 = terminated w" by blast
  have t: "terminated (snd ?R) = terminated w @ [created w..<created w + ?n]"
    and c: "created (snd ?R) = created w + ?n"
    unfolding R try_finally_snd
    by (simp_all add: cleanup_frame recognition_frame fr new_workers_def)
  let ?ws = "[created w..<created w + ?n]"
  have split: "[0..<created w + ?n] = [0..<created w] @ ?ws"
    by (rule upt_add_eq_append) simp
  have new: "filter (\<lambda>k. k \<notin> set (terminated w @ ?ws)) ?ws = []"
    by (simp add: filter_empty_conv)
  have old: "filter (\<lambda>k. k \<notin> set (terminated w @ ?ws)) [0..<created w] =
      filter (\<lambda>k. k \<notin> set (terminated w)) [0..<created w]"
    by (rule filter_cong) simp_all
  show ?thesis
    unfolding live_workers_def t c split filter_append new old by simp
qed

text \<open>The equations that run a call on concrete collaborators.\<close>

lemmas run_defs =
  performAdvancedOCR_def Let_def or_default_def preprocessImage_def createWorker_def
  addWorker_def createScheduler_def recognition_def addJob_def try_finally_def cleanup_def
  terminate_each_eq setTimeout_def after_failure_def
  retry_loop_done retry_loop_success retry_loop_failure

lemmas start_defs = env_ok_def default_options_def world0_def

section \<open>The retry loop\<close>

text \<open>
  Claim C4. Let the retry bound be \<open>N \<ge> 1\<close> and let every submission of the recognition job
  fail. When the image is preprocessed and the workers start, \<^verbatim>\<open>performAdvancedOCR\<close>
  submits the job exactly \<open>N\<close> times and waits for the delay of 1000 ms exactly \<open>N - 1\<close>
  times: not at all for \<open>N = 1\<close>, and never after the last attempt. The calls of the loop
  are, in order, \<open>N - 1\<close> times a submission followed by a delay, and then the last
  submission.
\<close>

theorem all_attempts_fail_counts:
  assumes pre: "preprocessed env imageBuffer options = Inr processedImage"
    and start: "workers_start env (created w) (the_languages options)"
    and N: "the_retries options = int N" "1 \<le> N"
    and fails: "\<forall>k. isl (addJob_outcome env k processedImage)"
  shows "jobs (snd (performAdvancedOCR env imageBuffer options w)) = jobs w + N \<and>
         delays (snd (performAdvancedOCR env imageBuffer options w)) =
           delays w @ replicate (N - 1) 1000 \<and>
         retry_calls (snd (performAdvancedOCR env imageBuffer options w)) =
           retry_calls w @ concat (replicate (N - 1) [AddJob, SetTimeout 1000]) @ [AddJob]"
proof -
  from performAdvancedOCR_ready [OF pre start] obtain w3 where
    R: "performAdvancedOCR env imageBuffer options w =
          try_finally (recognition env (the_logger options) (the_retries options) processedImage)
            (cleanup env (the_logger options) (new_workers w options)) w3"
    and fr: "jobs w3 = jobs w" "delays w3 = delays w" "retry_calls w3 = retry_calls w" by blast
  from fails have f: "\<And>k. isl (addJob_outcome env k processedImage)" by simp
  from N have pos: "0 \<le> int N" "0 < int N" by simp_all
  show ?thesis
    unfolding R try_finally_snd
    using recognition_all_fail(1,2) [OF f pos(1), of "the_logger options" w3]
      recognition_all_fail(4) [OF f pos, of "the_logger options" w3] fr
    by (simp add: cleanup_frame N)
qed

theorem all_attempts_fail_counts_witness:
  "jobs (snd (performAdvancedOCR env_job_fails [] (default_options\<lparr>retries := Some 3\<rparr>) world0)) = 3 \<and>
   delays (snd (performAdvancedOCR env_job_fails [] (default_options\<lparr>retries := Some 3\<rparr>) world0)) =
     [1000, 1000] \<and>
   retry_calls (snd (performAdvancedOCR env_job_fails [] (default_options\<lparr>retries := Some 3\<rparr>) world0)) =
     [AddJob, SetTimeout 1000, AddJob, SetTimeout 1000, AddJob]"
  using all_attempts_fail_counts
    [of env_job_fails "[]" "default_options\<lparr>retries := Some 3\<rparr>" "[]" world0 3]
  by (simp add: preprocessed_def env_job_fails_def env_ok_def default_options_def or_default_def
      the_languages_def the_retries_def world0_def retry_calls_def numeral_eq_Suc)

text \<open>
  Claim C5, as stated, fails: when every attempt fails and a \<^verbatim>\<open>terminate()\<close> is rejected
  in the \<^verbatim>\<open>finally\<close> block, the call fails with the termination error, not with the error
  of the final attempt.
\<close>

theorem final_error_replaced_counterexample:
  "addJob_outcome env_all_fails 0 [] = Inl timeout \<and>
   fst (performAdvancedOCR env_all_fails [] default_options world0) = Inl boom \<and>
   boom \<noteq> timeout"
  by (simp add: run_defs env_all_fails_def env_job_fails_def start_defs boom_def timeout_def js_def)

text \<open>
  Claim C5, amended. Let the retry bound be \<open>N \<ge> 1\<close>, let every attempt fail, and let the
  final attempt (submission \<open>N\<close>) fail with \<open>e\<close>. When the image is preprocessed, the workers
  start and every \<^verbatim>\<open>terminate()\<close> of the cleanup resolves, \<^verbatim>\<open>performAdvancedOCR\<close>
  fails with exactly \<open>e\<close>; no text is returned.
\<close>

theorem final_error_surfaced:
  assumes pre: "preprocessed env imageBuffer options = Inr processedImage"
    and start: "workers_start env (created w) (the_languages options)"
    and N: "the_retries options = int N" "1 \<le> N"
    and fails: "\<forall>k. isl (addJob_outcome env k processedImage)"
    and final: "addJob_outcome env (jobs w + N - 1) processedImage = Inl e"
    and released: "\<forall>k\<in>set (new_workers w options). terminate_outcome env k = None"
  shows "fst (performAdvancedOCR env imageBuffer options w) = Inl e"
proof -
  from performAdvancedOCR_ready [OF pre start] obtain w3 where
    R: "performAdvancedOCR env imageBuffer options w =
          try_finally (recognition env (the_logger options) (the_retries options) processedImage)
            (cleanup env (the_logger options) (new_workers w options)) w3"
    and fr: "jobs w3 = jobs w" by blast
  from fails have f: "\<And>k. isl (addJob_outcome env k processedImage)" by simp
  from N have pos: "0 \<le> int N" "0 < int N" by simp_all
  from recognition_all_fail(3) [OF f pos, of "the_logger options" w3] fr final
  have "fst (recognition env (the_logger options) (int N) processedImage w3) = Inl e"
    by simp
  then show ?thesis
    unfolding R try_finally_fst by (simp add: cleanup_ok [OF released] N)
qed

theorem final_error_surfaced_witness:
  "fst (performAdvancedOCR env_job_fails [] (default_options\<lparr>retries := Some 2\<rparr>) world0) = Inl timeout"
  using final_error_surfaced
    [of env_job_fails "[]" "default_options\<lparr>retries := Some 2\<rparr>" "[]" world0 2 timeout]
  by (simp add: preprocessed_def env_job_fails_def env_ok_def default_options_def or_default_def
      the_languages_def the_retries_def world0_def new_workers_def)

text \<open>
  Claim C6, as stated, fails: the first attempt reads \<^verbatim>\<open>HELLO\<close>, a \<^verbatim>\<open>terminate()\<close>
  is rejected, and the call throws instead of returning the text.
\<close>

theorem first_attempt_text_lost_counterexample:
  "addJob_outcome env_terminate_fails 0 [] = Inr (js ''HELLO'') \<and>
   fst (performAdvancedOCR env_terminate_fails [] default_options world0) = Inl boom"
  by (simp add: run_defs env_terminate_fails_def start_defs)


text \<open>
  Claim C6, amended. If the first recognition attempt succeeds with text \<open>t\<close> (retry bound
  at least 1, image preprocessed, workers started), exactly one job is submitted and no
  delay is waited for; and when every \<^verbatim>\<open>terminate()\<close> of the cleanup resolves,
  \<^verbatim>\<open>performAdvancedOCR\<close> returns \<open>t\<close>.
\<close>

theorem first_attempt_succeeds:
  assumes pre: "preprocessed env imageBuffer options = Inr processedImage"
    and start: "workers_start env (created w) (the_languages options)"
    and N: "1 \<le> the_retries options"
    and first: "addJob_outcome env (jobs w) processedImage = Inr t"
  shows "jobs (snd (performAdvancedOCR env imageBuffer options w)) = jobs w + 1 \<and>
         delays (snd (performAdvancedOCR env imageBuffer options w)) = delays w \<and>
         retry_calls (snd (performAdvancedOCR env imageBuffer options w)) =
           retry_calls w @ [AddJob] \<and>
         ((\<forall>k\<in>set (new_workers w options). terminate_outcome env k = None) \<longrightarrow>
            fst (performAdvancedOCR env imageBuffer options w) = Inr t)"
proof -
  from performAdvancedOCR_ready [OF pre start] obtain w3 where
    R: "performAdvancedOCR env imageBuffer options w =
          try_finally (recognition env (the_logger options) (the_retries options) processedImage)
            (cleanup env (the_logger options) (new_workers w options)) w3"
    and fr: "jobs w3 = jobs w" "delays w3 = delays w" "retry_calls w3 = retry_calls w" by blast
  from N have pos: "0 < the_retries options" by simp
  from first fr have first': "addJob_outcome env (jobs w3) processedImage = Inr t" by simp
  note rec = recognition_first_success [OF pos first', of "the_logger options"]
  show ?thesis
    unfolding R try_finally_snd try_finally_fst rec
    by (simp add: cleanup_frame cleanup_ok fr)
qed

theorem first_attempt_succeeds_witness:
  "jobs (snd (performAdvancedOCR env_ok [] (default_options\<lparr>retries := Some 2\<rparr>) world0)) = 1 \<and>
   delays (snd (performAdvancedOCR env_ok [] (default_options\<lparr>retries := Some 2\<rparr>) world0)) = [] \<and>
   retry_calls (snd (performAdvancedOCR env_ok [] (default_options\<lparr>retries := Some 2\<rparr>) world0)) =
     [AddJob] \<and>
   fst (performAdvancedOCR env_ok [] (default_options\<lparr>retries := Some 2\<rparr>) world0) = Inr (js ''HELLO'')"
  using first_attempt_succeeds
    [of env_ok "[]" "default_options\<lparr>retries := Some 2\<rparr>" "[]" world0 "js ''HELLO''"]
  by (simp add: preprocessed_def env_ok_def default_options_def or_default_def
      the_languages_def the_retries_def world0_def new_workers_def retry_calls_def)




section \<open>Cleanup\<close>

text \<open>
  Claim C3, as stated, fails: the recognition succeeds, the first \<^verbatim>\<open>terminate()\<close> is
  rejected, and the call fails with the termination error; nothing about that failure is
  handed to the logger.
\<close>

theorem terminate_failure_fatal_counterexample:
  "addJob_outcome env_terminate_fails 0 [] = Inr (js ''HELLO'') \<and>
   terminate_outcome env_terminate_fails 0 = Some boom \<and>
   fst (performAdvancedOCR env_terminate_fails []
          (default_options\<lparr>languages := Some [js ''eng'', js ''fra'']\<rparr>) world0) = Inl boom \<and>
   logged (snd (performAdvancedOCR env_terminate_fails []
          (default_options\<lparr>languages := Some [js ''eng'', js ''fra'']\<rparr>) world0)) =
     [js ''Preprocessing image for better OCR results...'', js ''Preprocessing complete.'',
      js ''Initializing worker for language: '' @ js ''eng'',
      js ''Initializing worker for language: '' @ js ''fra'',
      js ''Starting OCR process...'', js ''OCR process completed successfully'',
      js ''Terminating workers...'']"
  by (simp add: run_defs env_terminate_fails_def start_defs)

text \<open>
  Claim C3, amended. Once the image is preprocessed and the workers have started,
  \<^verbatim>\<open>terminate()\<close> is called on every worker of the call, whether or not one of these calls
  is rejected. A rejected \<^verbatim>\<open>terminate()\<close> is not caught: the call fails with a termination
  error in place of its primary result or error, and the last message logged is
  \<^verbatim>\<open>Terminating workers...\<close>. When every \<^verbatim>\<open>terminate()\<close> resolves, the outcome of the
  recognition is returned or propagated unchanged.
\<close>

theorem terminate_failure_replaces_outcome:
  assumes pre: "preprocessed env imageBuffer options = Inr processedImage"
    and start: "workers_start env (created w) (the_languages options)"
  shows "terminated (snd (performAdvancedOCR env imageBuffer options w)) =
           terminated w @ new_workers w options \<and>
         ((\<exists>k\<in>set (new_workers w options). terminate_outcome env k \<noteq> None) \<longrightarrow>
            (\<exists>k\<in>set (new_workers w options). \<exists>e. terminate_outcome env k = Some e \<and>
               fst (performAdvancedOCR env imageBuffer options w) = Inl e) \<and>
            last (logged (snd (performAdvancedOCR env imageBuffer options w))) =
              js ''Terminating workers...'') \<and>
         ((\<forall>k\<in>set (new_workers w options). terminate_outcome env k = None) \<longrightarrow>
            (\<exists>w3. jobs w3 = jobs w \<and>
               fst (performAdvancedOCR env imageBuffer options w) =
                 fst (recognition env (the_logger options) (the_retries options) processedImage w3)) \<and>
            last (logged (snd (performAdvancedOCR env imageBuffer options w))) =
              js ''All workers terminated'')"
proof -
  let ?R = "performAdvancedOCR env imageBuffer options w"
  let ?l = "the_logger options"
  let ?ws = "new_workers w options"
  from performAdvancedOCR_ready [OF pre start] obtain w3 where
    R: "?R = try_finally (recognition env ?l (the_retries options) processedImage)
          (cleanup env ?l ?ws) w3"
    and fr: "jobs w3 = jobs w" "terminated w3 = terminated w" by blast
  let ?w4 = "snd (recognition env ?l (the_retries options) processedImage w3)"
  have t4: "terminated ?w4 = terminated w" by (simp add: recognition_frame fr)
  have called: "terminated (snd ?R) = terminated w @ ?ws"
    unfolding R try_finally_snd by (simp add: cleanup_frame t4)
  have failing: "(\<exists>k\<in>set ?ws. \<exists>e. terminate_outcome env k = Some e \<and> fst ?R = Inl e) \<and>
      last (logged (snd ?R)) = js ''Terminating workers...''"
    if "\<exists>k\<in>set ?ws. terminate_outcome env k \<noteq> None"
  proof -
    from cleanup_fail [OF that, of ?l ?w4] obtain k e where
      k: "k \<in> set ?ws" "terminate_outcome env k = Some e"
      and c: "cleanup env ?l ?ws ?w4 =
        (Inl e, snd (terminate_each env ?ws (invoke ?l (js ''Terminating workers...'') ?w4)))"
      by blast
    have "fst ?R = Inl e" unfolding R try_finally_fst c by simp
    moreover have "last (logged (snd ?R)) = js ''Terminating workers...''"
      unfolding R try_finally_snd c by simp
    ultimately show ?thesis using k by blast
  qed
  have releasing: "(\<exists>w3. jobs w3 = jobs w \<and>
        fst ?R = fst (recognition env ?l (the_retries options) processedImage w3)) \<and>
      last (logged (snd ?R)) = js ''All workers terminated''"
    if ok: "\<forall>k\<in>set ?ws. terminate_outcome env k = None"
  proof -
    have "fst ?R = fst (recognition env ?l (the_retries options) processedImage w3)"
      unfolding R try_finally_fst cleanup_ok [OF ok] by simp
    moreover have "last (logged (snd ?R)) = js ''All workers terminated''"
      unfolding R try_finally_snd cleanup_ok [OF ok] by simp
    ultimately show ?thesis using fr by blast
  qed
  from called failing releasing show ?thesis by blast
qed

theorem terminate_failure_replaces_outcome_witness:
  "terminated (snd (performAdvancedOCR env_terminate_fails [] default_options world0)) = [0] \<and>
   fst (performAdvancedOCR env_terminate_fails [] default_options world0) = Inl boom \<and>
   last (logged (snd (performAdvancedOCR env_terminate_fails [] default_options world0))) =
     js ''Terminating workers...''"
  using terminate_failure_replaces_outcome
    [of env_terminate_fails "[]" default_options "[]" world0]
  by (simp add: preprocessed_def env_terminate_fails_def env_ok_def default_options_def
      or_default_def the_languages_def the_retries_def world0_def new_workers_def)

text \<open>
  Claim C1 at a failing input: two languages, the second \<^verbatim>\<open>createWorker\<close> is rejected.
  The error leaves the initialisation loop, which is before the \<^verbatim>\<open>try\<close>; the first worker
  was created and \<^verbatim>\<open>terminate()\<close> is never called on it.
\<close>

theorem partial_workers_leak:
  "fst (performAdvancedOCR env_second_worker_fails []
          (default_options\<lparr>languages := Some [js ''eng'', js ''fra'']\<rparr>) world0) = Inl boom \<and>
   created (snd (performAdvancedOCR env_second_worker_fails []
          (default_options\<lparr>languages := Some [js ''eng'', js ''fra'']\<rparr>) world0)) = 1 \<and>
   terminated (snd (performAdvancedOCR env_second_worker_fails []
          (default_options\<lparr>languages := Some [js ''eng'', js ''fra'']\<rparr>) world0)) = [] \<and>
   live_workers (snd (performAdvancedOCR env_second_worker_fails []
          (default_options\<lparr>languages := Some [js ''eng'', js ''fra'']\<rparr>) world0)) = [0]"
  by (simp add: run_defs env_second_worker_fails_def start_defs live_workers_def)

section \<open>Preprocessing\<close>

text \<open>
  Claim C8. If preprocessing is enabled and the pipeline fails with \<open>e\<close>, then
  \<^verbatim>\<open>performAdvancedOCR\<close> fails with \<open>e\<close>; running the pipeline, once, is the only call
  it has made: no scheduler and no worker has been created and no job submitted.
\<close>

theorem preprocessing_failure:
  assumes enabled: "or_default (preprocessing options) True"
    and fails: "sharp_toBuffer env imageBuffer
                  (pipeline (or_default (preprocessingOptions options) no_preprocessing_options)) = Inl e"
  shows "fst (performAdvancedOCR env imageBuffer options w) = Inl e \<and>
         calls (snd (performAdvancedOCR env imageBuffer options w)) = calls w @ [Sharp_toBuffer] \<and>
         sharp_runs (snd (performAdvancedOCR env imageBuffer options w)) = sharp_runs w + 1 \<and>
         schedulers (snd (performAdvancedOCR env imageBuffer options w)) = schedulers w \<and>
         created (snd (performAdvancedOCR env imageBuffer options w)) = created w \<and>
         jobs (snd (performAdvancedOCR env imageBuffer options w)) = jobs w \<and>
         delays (snd (performAdvancedOCR env imageBuffer options w)) = delays w"
  using assms by (simp add: performAdvancedOCR_def Let_def preprocessImage_def)

theorem preprocessing_failure_witness:
  "fst (performAdvancedOCR env_sharp_fails [] default_options world0) = Inl boom \<and>
   calls (snd (performAdvancedOCR env_sharp_fails [] default_options world0)) = [Sharp_toBuffer] \<and>
   sharp_runs (snd (performAdvancedOCR env_sharp_fails [] default_options world0)) = 1 \<and>
   schedulers (snd (performAdvancedOCR env_sharp_fails [] default_options world0)) = 0 \<and>
   created (snd (performAdvancedOCR env_sharp_fails [] default_options world0)) = 0 \<and>
   jobs (snd (performAdvancedOCR env_sharp_fails [] default_options world0)) = 0 \<and>
   delays (snd (performAdvancedOCR env_sharp_fails [] default_options world0)) = []"
  using preprocessing_failure [of default_options env_sharp_fails "[]" boom world0]
  by (simp add: env_sharp_fails_def env_ok_def default_options_def or_default_def world0_def)

section \<open>The single-worker variants release their worker\<close>

text \<open>
  Claim C9, as stated, fails: \<^verbatim>\<open>recognize\<close> reads \<^verbatim>\<open>HELLO\<close> and \<^verbatim>\<open>terminate()\<close> is
  rejected; both functions throw the termination error and the text is not returned.
\<close>

theorem single_worker_text_lost_counterexample:
  "recognize_outcome env_terminate_fails 0 [] = Inr (js ''HELLO'') \<and>
   fst (extractTextFromImage env_terminate_fails [] None world0) = Inl boom \<and>
   fst (performOCR env_terminate_fails [] None world0) = Inl boom"
  by (simp add: performOCR_def extractTextFromImage_def createWorker_def try_finally_def
      try_catch_def recognize_def terminate_def or_default_def env_terminate_fails_def start_defs)

text \<open>
  Claim C9, amended. When \<^verbatim>\<open>performOCR\<close> and \<^verbatim>\<open>extractTextFromImage\<close> have created
  their worker, they call \<^verbatim>\<open>terminate()\<close> on it on every exit path, after \<^verbatim>\<open>recognize\<close>
  and before they return or throw. When that call resolves, they return the text if \<^verbatim>\<open>recognize\<close> succeeded and rethrow the error of
  \<^verbatim>\<open>recognize\<close> if it failed; when that call is rejected, they throw its error instead.
\<close>

theorem single_worker_released:
  assumes started: "createWorker_outcome env (created w) (or_default lang (js ''eng'')) = None"
  shows "calls (snd (performOCR env img lang w)) =
           calls w @ [CreateWorker (or_default lang (js ''eng'')), Recognize (created w),
                      Terminate (created w)] \<and>
         terminated (snd (performOCR env img lang w)) = terminated w @ [created w] \<and>
         fst (performOCR env img lang w) =
           (case terminate_outcome env (created w) of
              Some e \<Rightarrow> Inl e
            | None \<Rightarrow> recognize_outcome env (created w) img) \<and>
         calls (snd (extractTextFromImage env img lang w)) =
           calls w @ [CreateWorker (or_default lang (js ''eng'')), Recognize (created w),
                      Terminate (created w)] \<and>
         terminated (snd (extractTextFromImage env img lang w)) = terminated w @ [created w] \<and>
         fst (extractTextFromImage env img lang w) =
           (case terminate_outcome env (created w) of
              Some e \<Rightarrow> Inl e
            | None \<Rightarrow> recognize_outcome env (created w) img)"
  using started
  by (simp add: performOCR_def extractTextFromImage_def createWorker_def try_finally_def
      try_catch_def recognize_def terminate_def console_error_def
      split: sum.splits option.splits)

theorem single_worker_released_witness:
  "calls (snd (performOCR env_recognize_fails [] None world0)) =
     [CreateWorker (js ''eng''), Recognize 0, Terminate 0] \<and>
   terminated (snd (performOCR env_recognize_fails [] None world0)) = [0] \<and>
   fst (performOCR env_recognize_fails [] None world0) = Inl timeout \<and>
   calls (snd (extractTextFromImage env_recognize_fails [] None world0)) =
     [CreateWorker (js ''eng''), Recognize 0, Terminate 0] \<and>
   terminated (snd (extractTextFromImage env_recognize_fails [] None world0)) = [0] \<and>
   fst (extractTextFromImage env_recognize_fails [] None world0) = Inl timeout"
  using single_worker_released [of env_recognize_fails world0 None "[]"]
  by (simp add: env_recognize_fails_def env_ok_def world0_def or_default_def)

section \<open>The nodes\<close>



subsection \<open>The statistics\<close>

lemma split_on_nonempty: "split_on sep s \<noteq> []"
  by (induction s) (auto split: list.splits)

lemma length_split_on: "length (split_on sep s) = 1 + count_list s sep"
  by (induction s) (auto split: list.splits simp: split_on_nonempty)

lemma split_runs_nonempty: "split_runs sp s \<noteq> []"
  by (induction sp s rule: split_runs.induct) (auto split: list.splits)

text \<open>The first piece is the run before the first white space; the rest follows that run.\<close>

lemma split_runs_unfold:
  "split_runs sp s =
     takeWhile (\<lambda>d. \<not> sp d) s #
       (case dropWhile (\<lambda>d. \<not> sp d) s of
          [] \<Rightarrow> []
        | d # r \<Rightarrow> split_runs sp (dropWhile sp r))"
proof (induction s)
  case Nil
  show ?case by simp
next
  case (Cons c s)
  show ?case
  proof (cases "sp c")
    case True
    then show ?thesis by simp
  next
    case False
    then have "split_runs sp (c # s) =
        (case split_runs sp s of piece # pieces \<Rightarrow> (c # piece) # pieces | [] \<Rightarrow> [[c]])"
      by simp
    also have "\<dots> = (c # takeWhile (\<lambda>d. \<not> sp d) s) #
        (case dropWhile (\<lambda>d. \<not> sp d) s of [] \<Rightarrow> [] | d # r \<Rightarrow> split_runs sp (dropWhile sp r))"
      by (subst Cons.IH) simp
    finally show ?thesis using False by simp
  qed
qed

lemma words_after_spaces:
  "filter (\<lambda>p. p \<noteq> []) (split_runs sp (dropWhile sp s)) =
   filter (\<lambda>p. p \<noteq> []) (split_runs sp s)"
  by (cases s) simp_all

lemma words_are_tokens:
  "filter (\<lambda>p. p \<noteq> []) (split_runs sp s) = tokens sp s"
proof (induction sp s rule: tokens.induct)
  case (1 sp)
  show ?case by simp
next
  case (2 sp c s)
  show ?case
  proof (cases "sp c")
    case True
    with 2 show ?thesis by (simp add: words_after_spaces)
  next
    case False
    let ?rest = "dropWhile (\<lambda>d. \<not> sp d) s"
    have IH: "filter (\<lambda>p. p \<noteq> []) (split_runs sp ?rest) = tokens sp ?rest"
      using 2(2) [OF False] .
    have rest: "filter (\<lambda>p. p \<noteq> [])
        (case ?rest of [] \<Rightarrow> [] | d # r \<Rightarrow> split_runs sp (dropWhile sp r)) =
      filter (\<lambda>p. p \<noteq> []) (split_runs sp ?rest)"
    proof (cases ?rest)
      case Nil
      show ?thesis unfolding Nil by simp
    next
      case (Cons d r)
      then have "sp d" using hd_dropWhile [of "\<lambda>d. \<not> sp d" s] by auto
      then show ?thesis unfolding Cons by simp
    qed
    have "split_runs sp (c # s) =
        (c # takeWhile (\<lambda>d. \<not> sp d) s) #
          (case ?rest of [] \<Rightarrow> [] | d # r \<Rightarrow> split_runs sp (dropWhile sp r))"
      using False by (subst split_runs_unfold) simp
    then show ?thesis using False rest IH by simp
  qed
qed

lemma make_statistics_example:
  "make_statistics (js ''two  words\<newline>line '') now =
     \<lparr>textLength = 16, lineCount = 2, wordCount = 3, timestamp = now\<rparr>"
  by (simp add: make_statistics_def js_def newline_def is_space_def)

lemma advanced_node_env_ok:
  "fst (advanced_node env_ok world0) =
     Inr (empty_json\<lparr>json_success := True, json_text := Some (js ''HELLO''),
            json_statistics := Some (make_statistics (js ''HELLO'') (js ''2024-01-01T00:00:00.000Z'')),
            json_languages := Some [js ''eng''],
            json_mimeType := Some (js ''image/png'')\<rparr>)"
  by (simp add: advanced_node_def try_catch_def binary_data_def binary_mimeType_def png_item_def
      new_Date_toISOString_def run_defs start_defs js_def)

text \<open>
  Claim C10. On every success record of the advanced node, \<^verbatim>\<open>textLength\<close> is the number
  of code units of the text, \<^verbatim>\<open>lineCount\<close> is one plus the number of newlines in it, and
  \<^verbatim>\<open>wordCount\<close> is the number of its tokens.
\<close>

theorem statistics_of_text:
  assumes result: "advanced_node env w = (Inr r, w')" and success: "json_success r"
  shows "\<exists>t st. json_text r = Some t \<and> json_statistics r = Some st \<and>
           textLength st = length t \<and>
           lineCount st = 1 + count_list t newline \<and>
           wordCount st = length (tokens is_space t)"
  using assms
  by (auto simp: advanced_node_def try_catch_def empty_json_def Let_def
        new_Date_toISOString_def make_statistics_def length_split_on words_are_tokens
        split: sum.splits option.splits prod.splits if_splits)


theorem statistics_of_text_witness:
  "\<exists>t st. json_text (projr (fst (advanced_node env_ok world0))) = Some t \<and>
     json_statistics (projr (fst (advanced_node env_ok world0))) = Some st \<and>
     textLength st = length t \<and>
     lineCount st = 1 + count_list t newline \<and>
     wordCount st = length (tokens is_space t)"
proof (rule statistics_of_text)
  show "advanced_node env_ok world0 =
      (Inr (projr (fst (advanced_node env_ok world0))), snd (advanced_node env_ok world0))"
    by (simp add: advanced_node_env_ok prod_eq_iff)
  show "json_success (projr (fst (advanced_node env_ok world0)))"
    by (simp add: advanced_node_env_ok empty_json_def)
qed

section \<open>The scenarios of the specification\<close>

text \<open>
  One language, the job fails once and then reads \<^verbatim>\<open>HELLO\<close> (the node retries twice):
  success, two submissions, one delay, one worker created and terminated.
\<close>

lemma scenario_retry_then_success:
  "json_success (projr (fst (advanced_node env_job_fails_once world0))) \<and>
   json_text (projr (fst (advanced_node env_job_fails_once world0))) = Some (js ''HELLO'') \<and>
   jobs (snd (advanced_node env_job_fails_once world0)) = 2 \<and>
   delays (snd (advanced_node env_job_fails_once world0)) = [1000] \<and>
   created (snd (advanced_node env_job_fails_once world0)) = 1 \<and>
   terminated (snd (advanced_node env_job_fails_once world0)) = [0]"
  by (simp add: advanced_node_def try_catch_def binary_data_def binary_mimeType_def png_item_def
      new_Date_toISOString_def run_defs env_job_fails_once_def start_defs js_def empty_json_def)

text \<open>
  Two languages, one attempt, the job fails with \<^verbatim>\<open>timeout\<close>: that error, two workers
  created and both terminated, one submission.
\<close>

lemma scenario_two_workers_timeout:
  "fst (performAdvancedOCR env_job_fails []
          (default_options\<lparr>languages := Some [js ''eng'', js ''fra'']\<rparr>) world0) = Inl timeout \<and>
   created (snd (performAdvancedOCR env_job_fails []
          (default_options\<lparr>languages := Some [js ''eng'', js ''fra'']\<rparr>) world0)) = 2 \<and>
   terminated (snd (performAdvancedOCR env_job_fails []
          (default_options\<lparr>languages := Some [js ''eng'', js ''fra'']\<rparr>) world0)) = [0, 1] \<and>
   jobs (snd (performAdvancedOCR env_job_fails []
          (default_options\<lparr>languages := Some [js ''eng'', js ''fra'']\<rparr>) world0)) = 1"
  by (simp add: run_defs env_job_fails_def start_defs)

end
